theory Spec2Isabelle
  imports Main "HOL-Library.Multiset"
begin

section \<open>User documents and the users collection (models.py)\<close>

text \<open>
  The module keeps one document per account in the collection \<^verbatim>\<open>users\<close> of a document
  store. A document is the dictionary that \<^verbatim>\<open>User.create_user\<close> builds; the store is
  modelled as the list of its documents in insertion order. \<^verbatim>\<open>find_one\<close> and
  \<^verbatim>\<open>update_one\<close> act on the first document that matches the filter.

  A \<^verbatim>\<open>datetime\<close> is the number of microseconds since \<^verbatim>\<open>datetime.min\<close>. The store
  keeps a datetime to the millisecond only: the driver drops the microseconds below the
  millisecond when it encodes a document or an update (\<open>bson_datetime\<close>), so a
  datetime read back from the store can be up to 999 microseconds earlier than the one
  that was written. The clock
  (\<^verbatim>\<open>datetime.utcnow()\<close>), the identifier the driver generates for an inserted
  document, and the salt drawn by \<^verbatim>\<open>generate_password_hash\<close> are arguments of the
  operations that use them. The two functions of \<^verbatim>\<open>werkzeug.security\<close> are parameters
  \<open>gph\<close> (\<^verbatim>\<open>generate_password_hash\<close>) and \<open>cph\<close> (\<^verbatim>\<open>check_password_hash\<close>).
\<close>

type_synonym datetime = nat

definition datetime_min :: datetime where
  "datetime_min = 0"

text \<open>\<^verbatim>\<open>timedelta(minutes=n)\<close>, in microseconds.\<close>

definition timedelta_minutes :: "nat \<Rightarrow> nat" where
  "timedelta_minutes n = n * 60000000"

text \<open>
  The exceptions the operations can raise: \<^verbatim>\<open>Exception("Database not connected")\<close> of
  \<^verbatim>\<open>Database.get_collection\<close>, and the \<^verbatim>\<open>TypeError\<close> of comparing \<^verbatim>\<open>None\<close> with a
  \<^verbatim>\<open>datetime\<close>.
\<close>

datatype error = DatabaseNotConnected | TypeError

record profile =
  age :: "nat option"
  weight :: "nat option"
  allergies :: "string list"
  medical_conditions :: "string list"

text \<open>
  A consultation is a dictionary supplied by the caller; the key \<^verbatim>\<open>timestamp\<close> may be
  missing (\<open>None\<close>). A reminder is caller data that the module never inspects.
\<close>

record 'c consultation =
  timestamp :: "datetime option"
  payload :: 'c

text \<open>
  The fields carry the keys of the dictionary, with the prefix \<open>u_\<close>. \<open>None\<close> in
  \<open>u_password_hash\<close>, \<open>u_google_id\<close>, \<open>u_otp\<close>, \<open>u_otp_expires\<close> and \<open>u_name\<close> is the
  Python value \<^verbatim>\<open>None\<close>; \<open>None\<close> in \<open>u_consultations\<close> and \<open>u_reminders\<close> means that
  the key is missing from the document.
\<close>

record ('c, 'r) user_doc =
  u_id :: nat
  u_email :: string
  u_name :: "string option"
  u_password_hash :: "string option"
  u_google_id :: "string option"
  u_created_at :: datetime
  u_verified :: bool
  u_otp :: "string option"
  u_otp_expires :: "datetime option"
  u_consultations :: "'c consultation list option"
  u_profile :: profile
  u_reminders :: "'r list option"

text \<open>
  What the store keeps of a datetime, of a consultation and of a whole document: every
  datetime floored to the millisecond, everything else as it is.
\<close>

definition bson_datetime :: "datetime \<Rightarrow> datetime" where
  "bson_datetime t = t - t mod 1000"

definition bson_consultation :: "'c consultation \<Rightarrow> 'c consultation" where
  "bson_consultation c = c\<lparr>timestamp := map_option bson_datetime (timestamp c)\<rparr>"

definition bson_document :: "('c, 'r) user_doc \<Rightarrow> ('c, 'r) user_doc" where
  "bson_document d =
     d\<lparr>u_created_at := bson_datetime (u_created_at d),
       u_otp_expires := map_option bson_datetime (u_otp_expires d),
       u_consultations := map_option (map bson_consultation) (u_consultations d)\<rparr>"

text \<open>
  The \<^verbatim>\<open>Database\<close> singleton: \<open>None\<close> when the connection failed (\<^verbatim>\<open>db = None\<close>),
  otherwise the documents of the users collection.
\<close>

type_synonym ('c, 'r) database = "('c, 'r) user_doc list option"

subsection \<open>Collection primitives\<close>

definition get_collection :: "('c, 'r) database \<Rightarrow> error + ('c, 'r) user_doc list" where
  "get_collection db = (case db of None \<Rightarrow> Inl DatabaseNotConnected | Some users \<Rightarrow> Inr users)"

definition find_one :: "('d \<Rightarrow> bool) \<Rightarrow> 'd list \<Rightarrow> 'd option" where
  "find_one query collection = List.find query collection"

definition insert_one :: "('c, 'r) user_doc list \<Rightarrow> ('c, 'r) user_doc \<Rightarrow> ('c, 'r) user_doc list" where
  "insert_one collection d = collection @ [bson_document d]"

fun update_one :: "('d \<Rightarrow> bool) \<Rightarrow> ('d \<Rightarrow> 'd) \<Rightarrow> 'd list \<Rightarrow> 'd list" where
  "update_one query upd [] = []"
| "update_one query upd (d # ds) =
     (if query d then upd d # ds else d # update_one query upd ds)"

text \<open>The filter \<^verbatim>\<open>{'email': email}\<close>.\<close>

definition by_email :: "string \<Rightarrow> ('c, 'r) user_doc \<Rightarrow> bool" where
  "by_email email d = (u_email d = email)"

text \<open>Truthiness of a value that is \<^verbatim>\<open>None\<close> or a string, as \<^verbatim>\<open>if password\<close> tests it.\<close>

definition truthy :: "string option \<Rightarrow> bool" where
  "truthy v = (case v of None \<Rightarrow> False | Some s \<Rightarrow> s \<noteq> [])"

text \<open>\<^verbatim>\<open>xs[:k]\<close>: a negative \<open>k\<close> counts from the end.\<close>

definition slice_to :: "'a list \<Rightarrow> int \<Rightarrow> 'a list" where
  "slice_to xs k =
     (if 0 \<le> k then take (nat k) xs
      else if int (length xs) + k \<le> 0 then []
      else take (nat (int (length xs) + k)) xs)"

text \<open>\<^verbatim>\<open>xs.pop(i)\<close> for \<open>i\<close> in range: the list without its element at \<open>i\<close>.\<close>

definition pop :: "'a list \<Rightarrow> nat \<Rightarrow> 'a list" where
  "pop xs i = take i xs @ drop (Suc i) xs"

text \<open>
  \<^verbatim>\<open>xs.sort(key=key, reverse=True)\<close>: a stable sort on the reversed list, reversed
  again, so that records with equal keys keep their order.
\<close>

definition sort_reverse :: "('a \<Rightarrow> nat) \<Rightarrow> 'a list \<Rightarrow> 'a list" where
  "sort_reverse key xs = rev (sort_key key (rev xs))"

subsection \<open>Operations of \<^verbatim>\<open>User\<close>\<close>

definition find_by_email ::
  "('c, 'r) database \<Rightarrow> string \<Rightarrow> error + ('c, 'r) user_doc option" where
  "find_by_email db email =
     (case get_collection db of
        Inl e \<Rightarrow> Inl e
      | Inr collection \<Rightarrow> Inr (find_one (by_email email) collection))"

text \<open>
  A document that \<^verbatim>\<open>find_one\<close> returns holds at least \<^verbatim>\<open>_id\<close>, so it is truthy:
  \<^verbatim>\<open>if User.find_by_email(email)\<close> tests whether a document was found.
\<close>

definition create_user ::
  "(nat \<Rightarrow> string \<Rightarrow> string) \<Rightarrow> nat \<Rightarrow> datetime \<Rightarrow> nat \<Rightarrow> ('c, 'r) database \<Rightarrow>
   string \<Rightarrow> string option \<Rightarrow> string option \<Rightarrow> string option \<Rightarrow>
   error + (('c, 'r) user_doc option \<times> ('c, 'r) database)" where
  "create_user gph salt utcnow inserted_id db email name password google_id =
     (case get_collection db of
        Inl e \<Rightarrow> Inl e
      | Inr collection \<Rightarrow>
          (case find_by_email db email of
             Inl e \<Rightarrow> Inl e
           | Inr (Some existing) \<Rightarrow> Inr (None, db)
           | Inr None \<Rightarrow>
               (let user_data =
                  \<lparr> u_id = inserted_id,
                    u_email = email,
                    u_name = name,
                    u_password_hash =
                      (if truthy password then Some (gph salt (the password)) else None),
                    u_google_id = google_id,
                    u_created_at = utcnow,
                    u_verified = (if truthy google_id then True else False),
                    u_otp = None,
                    u_otp_expires = None,
                    u_consultations = Some [],
                    u_profile =
                      \<lparr> age = None, weight = None, allergies = [], medical_conditions = [] \<rparr>,
                    u_reminders = None \<rparr>
                in Inr (Some user_data, Some (insert_one collection user_data)))))"

definition verify_password ::
  "(string \<Rightarrow> string \<Rightarrow> bool) \<Rightarrow> ('c, 'r) database \<Rightarrow> string \<Rightarrow> string \<Rightarrow> error + bool" where
  "verify_password cph db email password =
     (case find_by_email db email of
        Inl e \<Rightarrow> Inl e
      | Inr None \<Rightarrow> Inr False
      | Inr (Some user) \<Rightarrow>
          (if truthy (u_password_hash user)
           then Inr (cph (the (u_password_hash user)) password)
           else Inr False))"

definition set_otp ::
  "datetime \<Rightarrow> ('c, 'r) database \<Rightarrow> string \<Rightarrow> string \<Rightarrow> error + ('c, 'r) database" where
  "set_otp utcnow db email otp =
     (case get_collection db of
        Inl e \<Rightarrow> Inl e
      | Inr collection \<Rightarrow>
          (let otp_expires = utcnow + timedelta_minutes 10
           in Inr (Some (update_one (by_email email)
                     (\<lambda>d. d\<lparr>u_otp := Some otp,
                            u_otp_expires := Some (bson_datetime otp_expires)\<rparr>)
                     collection))))"

text \<open>
  \<^verbatim>\<open>user.get('otp') == otp and user.get('otp_expires') > datetime.utcnow()\<close>: the
  expiry is compared only when the codes are equal, and the comparison raises
  \<^verbatim>\<open>TypeError\<close> when the stored expiry is \<^verbatim>\<open>None\<close>. The code passed in is a
  string, as the codes of \<^verbatim>\<open>generate_otp\<close> are.
\<close>

definition verify_otp ::
  "datetime \<Rightarrow> ('c, 'r) database \<Rightarrow> string \<Rightarrow> string \<Rightarrow>
   error + (bool \<times> ('c, 'r) database)" where
  "verify_otp utcnow db email otp =
     (case get_collection db of
        Inl e \<Rightarrow> Inl e
      | Inr collection \<Rightarrow>
          (case find_by_email db email of
             Inl e \<Rightarrow> Inl e
           | Inr None \<Rightarrow> Inr (False, db)
           | Inr (Some user) \<Rightarrow>
               (if u_otp user = Some otp then
                  (case u_otp_expires user of
                     None \<Rightarrow> Inl TypeError
                   | Some expires \<Rightarrow>
                       (if expires > utcnow
                        then Inr (True, Some (update_one (by_email email)
                               (\<lambda>d. d\<lparr>u_verified := True, u_otp := None,
                                      u_otp_expires := None\<rparr>)
                               collection))
                        else Inr (False, db)))
                else Inr (False, db))))"

text \<open>\<^verbatim>\<open>$push\<close> appends to the array, creating it when the key is missing.\<close>

definition push :: "'a list option \<Rightarrow> 'a \<Rightarrow> 'a list option" where
  "push field x = (case field of None \<Rightarrow> Some [x] | Some xs \<Rightarrow> Some (xs @ [x]))"

definition add_consultation ::
  "datetime \<Rightarrow> ('c, 'r) database \<Rightarrow> string \<Rightarrow> 'c consultation \<Rightarrow> error + ('c, 'r) database" where
  "add_consultation utcnow db email consultation_data =
     (case get_collection db of
        Inl e \<Rightarrow> Inl e
      | Inr collection \<Rightarrow>
          (let stamped = consultation_data\<lparr>timestamp := Some utcnow\<rparr>
           in Inr (Some (update_one (by_email email)
                     (\<lambda>d. d\<lparr>u_consultations :=
                              push (u_consultations d) (bson_consultation stamped)\<rparr>)
                     collection))))"

text \<open>The sort key \<^verbatim>\<open>lambda x: x.get('timestamp', datetime.min)\<close>.\<close>

definition timestamp_key :: "'c consultation \<Rightarrow> datetime" where
  "timestamp_key x = (case timestamp x of None \<Rightarrow> datetime_min | Some t \<Rightarrow> t)"

definition get_consultations ::
  "('c, 'r) database \<Rightarrow> string \<Rightarrow> int \<Rightarrow> error + 'c consultation list" where
  "get_consultations db email limit =
     (case find_by_email db email of
        Inl e \<Rightarrow> Inl e
      | Inr None \<Rightarrow> Inr []
      | Inr (Some user) \<Rightarrow>
          (case u_consultations user of
             None \<Rightarrow> Inr []
           | Some consultations \<Rightarrow>
               Inr (slice_to (sort_reverse timestamp_key consultations) limit)))"

text \<open>The call with \<^verbatim>\<open>limit\<close> left at its default.\<close>

definition get_consultations_default ::
  "('c, 'r) database \<Rightarrow> string \<Rightarrow> error + 'c consultation list" where
  "get_consultations_default db email = get_consultations db email 10"

definition add_reminder ::
  "('c, 'r) database \<Rightarrow> string \<Rightarrow> 'r \<Rightarrow> error + ('c, 'r) database" where
  "add_reminder db email reminder_data =
     (case get_collection db of
        Inl e \<Rightarrow> Inl e
      | Inr collection \<Rightarrow>
          Inr (Some (update_one (by_email email)
                 (\<lambda>d. d\<lparr>u_reminders := push (u_reminders d) reminder_data\<rparr>)
                 collection)))"

definition get_reminders :: "('c, 'r) database \<Rightarrow> string \<Rightarrow> error + 'r list" where
  "get_reminders db email =
     (case find_by_email db email of
        Inl e \<Rightarrow> Inl e
      | Inr None \<Rightarrow> Inr []
      | Inr (Some user) \<Rightarrow>
          Inr (case u_reminders user of None \<Rightarrow> [] | Some reminders \<Rightarrow> reminders))"

definition delete_reminder ::
  "('c, 'r) database \<Rightarrow> string \<Rightarrow> int \<Rightarrow> error + (bool \<times> ('c, 'r) database)" where
  "delete_reminder db email reminder_index =
     (case find_by_email db email of
        Inl e \<Rightarrow> Inl e
      | Inr None \<Rightarrow> Inr (False, db)
      | Inr (Some user) \<Rightarrow>
          (case u_reminders user of
             None \<Rightarrow> Inr (False, db)
           | Some reminders \<Rightarrow>
               (if 0 \<le> reminder_index \<and> reminder_index < int (length reminders) then
                  (let reminders' = pop reminders (nat reminder_index)
                   in case get_collection db of
                        Inl e \<Rightarrow> Inl e
                      | Inr collection \<Rightarrow>
                          Inr (True, Some (update_one (by_email email)
                                 (\<lambda>d. d\<lparr>u_reminders := Some reminders'\<rparr>)
                                 collection)))
                else Inr (False, db))))"

subsection \<open>Sequences of account operations\<close>

text \<open>
  The three operations that write the verification fields, as commands, and the store
  after a sequence of them. An operation that raises leaves the store as it was.
\<close>

datatype account_op =
  CreateUser nat datetime nat string "string option" "string option" "string option"
| SetOtp datetime string string
| VerifyOtp datetime string string

fun step ::
  "(nat \<Rightarrow> string \<Rightarrow> string) \<Rightarrow> ('c, 'r) database \<Rightarrow> account_op \<Rightarrow> ('c, 'r) database" where
  "step gph db (CreateUser salt utcnow inserted_id email name password google_id) =
     (case create_user gph salt utcnow inserted_id db email name password google_id of
        Inl e \<Rightarrow> db
      | Inr (created, db') \<Rightarrow> db')"
| "step gph db (SetOtp utcnow email otp) =
     (case set_otp utcnow db email otp of Inl e \<Rightarrow> db | Inr db' \<Rightarrow> db')"
| "step gph db (VerifyOtp utcnow email otp) =
     (case verify_otp utcnow db email otp of Inl e \<Rightarrow> db | Inr (ok, db') \<Rightarrow> db')"

definition run ::
  "(nat \<Rightarrow> string \<Rightarrow> string) \<Rightarrow> account_op list \<Rightarrow> ('c, 'r) database \<Rightarrow> ('c, 'r) database" where
  "run gph ops db = foldl (step gph) db ops"

text \<open>The verification fields of a document are null together or set together.\<close>

definition otp_paired :: "('c, 'r) user_doc \<Rightarrow> bool" where
  "otp_paired d = ((u_otp d = None) = (u_otp_expires d = None))"

definition store_paired :: "('c, 'r) database \<Rightarrow> bool" where
  "store_paired db = (case db of None \<Rightarrow> True | Some docs \<Rightarrow> list_all otp_paired docs)"

subsection \<open>The password hash library\<close>

text \<open>
  What the round trip relies on from \<^verbatim>\<open>werkzeug.security\<close>: a generated hash is a
  non-empty string, and the check accepts the password the hash was generated from,
  whatever the salt. Nothing is assumed about the check of any other password: the
  library can accept more than one password for a hash.
\<close>

definition hash_accepts_own ::
  "(nat \<Rightarrow> string \<Rightarrow> string) \<Rightarrow> (string \<Rightarrow> string \<Rightarrow> bool) \<Rightarrow> bool" where
  "hash_accepts_own gph cph =
     (\<forall>salt password. gph salt password \<noteq> [] \<and> cph (gph salt password) password)"

text \<open>
  A hash library with that property, and documents, for the examples below. Like a
  hash built on HMAC, which pads its key with NUL bytes, the sample library does not
  tell a password from the same password followed by NUL bytes.
\<close>

definition strip_nul :: "string \<Rightarrow> string" where
  "strip_nul s = rev (dropWhile (\<lambda>c. c = CHR 0x00) (rev s))"

definition sample_gph :: "nat \<Rightarrow> string \<Rightarrow> string" where
  "sample_gph salt password = CHR ''$'' # strip_nul password"

definition sample_cph :: "string \<Rightarrow> string \<Rightarrow> bool" where
  "sample_cph pwhash password = (pwhash = CHR ''$'' # strip_nul password)"

definition default_profile :: profile where
  "default_profile = \<lparr> age = None, weight = None, allergies = [], medical_conditions = [] \<rparr>"

definition alice :: "(string, string) user_doc" where
  "alice =
     \<lparr> u_id = 1, u_email = ''a@x.com'', u_name = Some ''Alice'',
       u_password_hash = Some (sample_gph 0 ''pw1''), u_google_id = None,
       u_created_at = 1000, u_verified = False,
       u_otp = Some ''123456'', u_otp_expires = Some 5000,
       u_consultations = Some [], u_profile = default_profile,
       u_reminders = Some [''r0'', ''r1'', ''r2''] \<rparr>"

definition bob :: "(string, string) user_doc" where
  "bob =
     \<lparr> u_id = 2, u_email = ''b@x.com'', u_name = Some ''Bob'',
       u_password_hash = None, u_google_id = Some ''g-42'',
       u_created_at = 2000, u_verified = True,
       u_otp = None, u_otp_expires = None,
       u_consultations =
         Some [\<lparr>timestamp = Some 30000, payload = ''c30''\<rparr>,
               \<lparr>timestamp = None, payload = ''c-none''\<rparr>,
               \<lparr>timestamp = Some 50000, payload = ''c50''\<rparr>,
               \<lparr>timestamp = Some 10000, payload = ''c10''\<rparr>,
               \<lparr>timestamp = Some 40000, payload = ''c40''\<rparr>],
       u_profile = default_profile,
       u_reminders = None \<rparr>"

text \<open>
  The document that \<open>create_user\<close> builds at time \<open>1000\<close> with identifier \<open>3\<close> for
  \<^verbatim>\<open>create_user("e@x.com", "Erin", "")\<close>.
\<close>

definition erin :: "(string, string) user_doc" where
  "erin =
     \<lparr> u_id = 3, u_email = ''e@x.com'', u_name = Some ''Erin'',
       u_password_hash = None, u_google_id = None,
       u_created_at = 1000, u_verified = False,
       u_otp = None, u_otp_expires = None,
       u_consultations = Some [], u_profile = default_profile,
       u_reminders = None \<rparr>"

text \<open>
  The document that \<open>create_user\<close> builds at time \<open>1000\<close> with identifier \<open>4\<close> for
  \<^verbatim>\<open>create_user("f@x.com", "Frank", "", "")\<close>.
\<close>

definition frank :: "(string, string) user_doc" where
  "frank =
     \<lparr> u_id = 4, u_email = ''f@x.com'', u_name = Some ''Frank'',
       u_password_hash = None, u_google_id = Some [],
       u_created_at = 1000, u_verified = False,
       u_otp = None, u_otp_expires = None,
       u_consultations = Some [], u_profile = default_profile,
       u_reminders = None \<rparr>"

section \<open>Properties\<close>

subsection \<open>Lemmas on the collection primitives\<close>

lemma find_one_None: "find_one q ds = None \<longleftrightarrow> (\<forall>d \<in> set ds. \<not> q d)"
  by (auto simp: find_one_def find_None_iff)

lemma find_one_Some_q: "find_one q ds = Some d \<Longrightarrow> q d \<and> d \<in> set ds"
  by (induction ds) (auto simp: find_one_def split: if_splits)

lemma find_one_by_email_None:
  "find_one (by_email email) docs = None \<longleftrightarrow> email \<notin> u_email ` set docs"
  by (auto simp: find_one_None by_email_def)

lemma update_one_no_match: "find_one q ds = None \<Longrightarrow> update_one q f ds = ds"
  by (induction ds) (auto simp: find_one_def split: if_splits)

lemma find_one_update_one:
  "(\<And>d. q (f d) = q d) \<Longrightarrow> find_one q (update_one q f ds) = map_option f (find_one q ds)"
  by (induction ds) (auto simp: find_one_def)

lemma length_update_one: "length (update_one q f ds) = length ds"
  by (induction ds) auto

lemma update_one_index:
  "find_one q ds = Some d \<Longrightarrow>
   \<exists>k<length ds. ds ! k = d \<and> (\<forall>j<k. \<not> q (ds ! j)) \<and> update_one q f ds = ds[k := f d]"
proof (induction ds)
  case Nil
  then show ?case by (simp add: find_one_def)
next
  case (Cons a ds)
  show ?case
  proof (cases "q a")
    case True
    with Cons.prems have "a = d" by (simp add: find_one_def)
    with True show ?thesis by (intro exI[of _ 0]) simp
  next
    case False
    with Cons.prems have "find_one q ds = Some d" by (simp add: find_one_def)
    from Cons.IH[OF this] obtain k where k: "k < length ds" "ds ! k = d"
      "\<forall>j<k. \<not> q (ds ! j)" "update_one q f ds = ds[k := f d]" by blast
    have "\<forall>j<Suc k. \<not> q ((a # ds) ! j)"
      using False k(3) by (auto simp: nth_Cons split: nat.splits)
    with k False show ?thesis by (intro exI[of _ "Suc k"]) simp
  qed
qed

lemma bson_datetime_le: "bson_datetime t \<le> t"
  by (simp add: bson_datetime_def)

lemma bson_datetime_within: "t < bson_datetime t + 1000"
proof -
  have "t mod 1000 < 1000" by simp
  moreover have "t mod 1000 \<le> t" by (rule mod_less_eq_dividend)
  ultimately show ?thesis unfolding bson_datetime_def by linarith
qed

lemma find_by_email_connected:
  "find_by_email (Some docs) email = Inr (find_one (by_email email) docs)"
  by (simp add: find_by_email_def get_collection_def)

subsection \<open>Account creation on an email that is already stored\<close>

text \<open>
  Claim C2. When the connected store holds a document with the given email,
  \<open>create_user\<close> with that email returns no record (\<^verbatim>\<open>None\<close>) and the store after the
  call is the store before it: the existing document is unchanged and no document is
  inserted. This holds for every name, password, federated key, salt, clock value and
  candidate identifier.
\<close>

theorem create_user_existing:
  "email \<in> u_email ` set docs \<Longrightarrow>
   create_user gph salt utcnow inserted_id (Some docs) email name password google_id
     = Inr (None, Some docs)"
proof -
  assume "email \<in> u_email ` set docs"
  then have "find_one (by_email email) docs \<noteq> None"
    by (simp add: find_one_by_email_None)
  then obtain d where "find_one (by_email email) docs = Some d" by blast
  then show ?thesis
    by (simp add: create_user_def get_collection_def find_by_email_connected)
qed

theorem create_user_existing_witness:
  "''a@x.com'' \<in> u_email ` set [alice, bob] \<and>
   create_user sample_gph 7 9000 3 (Some [alice, bob]) ''a@x.com'' (Some ''Mallory'')
     (Some ''other'') None = Inr (None, Some [alice, bob])"
proof -
  have h: "''a@x.com'' \<in> u_email ` set [alice, bob]" by (simp add: alice_def)
  show ?thesis
    using h create_user_existing [OF h, of sample_gph 7 9000 3 "Some ''Mallory''" "Some ''other''" None]
    by simp
qed

subsection \<open>Issuing a code for an unknown email\<close>

text \<open>
  Claim C10. On a connected store with no document for the email, \<open>set_otp\<close> returns
  normally (no exception) and the store after the call equals the store before it: no
  document is created and none is changed.
\<close>

theorem set_otp_absent:
  "email \<notin> u_email ` set docs \<Longrightarrow> set_otp utcnow (Some docs) email otp = Inr (Some docs)"
  by (simp add: set_otp_def get_collection_def update_one_no_match find_one_by_email_None)

theorem set_otp_absent_witness:
  "''nobody@x.com'' \<notin> u_email ` set [alice, bob] \<and>
   set_otp 100 (Some [alice, bob]) ''nobody@x.com'' ''654321'' = Inr (Some [alice, bob])"
proof -
  have h: "''nobody@x.com'' \<notin> u_email ` set [alice, bob]" by (simp add: alice_def bob_def)
  show ?thesis using h set_otp_absent [OF h, of 100 "''654321''"] by simp
qed

subsection \<open>Password check without a stored hash\<close>

text \<open>
  Claim C7. On a connected store, \<open>verify_password\<close> returns false for an email that
  has no document, and returns false for every supplied password when the document
  found for the email has no password hash (a federated-identity-only account). The
  result does not depend on the check function of the hash library.
\<close>

theorem verify_password_no_hash:
  "(email \<notin> u_email ` set docs \<longrightarrow> verify_password cph (Some docs) email password = Inr False)
   \<and> (\<forall>user. find_by_email (Some docs) email = Inr (Some user) \<and> u_password_hash user = None
         \<longrightarrow> verify_password cph (Some docs) email password = Inr False)"
proof (intro conjI allI impI)
  assume "email \<notin> u_email ` set docs"
  then have "find_one (by_email email) docs = None" by (simp add: find_one_by_email_None)
  then show "verify_password cph (Some docs) email password = Inr False"
    by (simp add: verify_password_def find_by_email_connected)
next
  fix user
  assume "find_by_email (Some docs) email = Inr (Some user) \<and> u_password_hash user = None"
  then show "verify_password cph (Some docs) email password = Inr False"
    by (simp add: verify_password_def truthy_def)
qed

theorem verify_password_no_hash_witness:
  "verify_password sample_cph (Some [alice, bob]) ''nobody@x.com'' ''pw1'' = Inr False \<and>
   verify_password sample_cph (Some [alice, bob]) ''b@x.com'' ''pw1'' = Inr False \<and>
   u_password_hash bob = None"
proof -
  have h1: "''nobody@x.com'' \<notin> u_email ` set [alice, bob]" by (simp add: alice_def bob_def)
  have h2: "find_by_email (Some [alice, bob]) ''b@x.com'' = Inr (Some bob)"
    by (simp add: find_by_email_connected find_one_def by_email_def alice_def bob_def)
  have h3: "u_password_hash bob = None" by (simp add: bob_def)
  from verify_password_no_hash [of "''nobody@x.com''" "[alice, bob]" sample_cph "''pw1''"] h1
  have a: "verify_password sample_cph (Some [alice, bob]) ''nobody@x.com'' ''pw1'' = Inr False"
    by blast
  from verify_password_no_hash [of "''b@x.com''" "[alice, bob]" sample_cph "''pw1''"] h2 h3
  have b: "verify_password sample_cph (Some [alice, bob]) ''b@x.com'' ''pw1'' = Inr False"
    by blast
  from a b h3 show ?thesis by simp
qed

subsection \<open>Verification of a one-time code\<close>

text \<open>
  Claim C1. On a connected store, for every email, supplied code and clock value:
  \<open>verify_otp\<close> returns true only if the document found for the email stores a code
  equal to the supplied one and an expiry that the clock has not reached, and then the
  store after the call is the store before it with that one document changed to
  \<open>verified = True\<close>, \<open>otp = None\<close>, \<open>otp_expires = None\<close>; under those conditions it
  does return true. When there is no document for the email, when the stored code
  differs from the supplied one, or when the stored expiry is not after the clock, it
  returns false and the store is unchanged.
\<close>

theorem verify_otp_spec:
  "(\<forall>db'. verify_otp utcnow (Some docs) email otp = Inr (True, db') \<longrightarrow>
      (\<exists>k user expires. k < length docs \<and> docs ! k = user \<and>
         (\<forall>j<k. u_email (docs ! j) \<noteq> email) \<and> u_email user = email \<and>
         u_otp user = Some otp \<and> u_otp_expires user = Some expires \<and> utcnow < expires \<and>
         db' = Some (docs[k := user\<lparr>u_verified := True, u_otp := None, u_otp_expires := None\<rparr>])))
   \<and> (\<forall>user expires. find_by_email (Some docs) email = Inr (Some user) \<and>
         u_otp user = Some otp \<and> u_otp_expires user = Some expires \<and> utcnow < expires \<longrightarrow>
         (\<exists>db'. verify_otp utcnow (Some docs) email otp = Inr (True, db')))
   \<and> (find_by_email (Some docs) email = Inr None \<longrightarrow>
         verify_otp utcnow (Some docs) email otp = Inr (False, Some docs))
   \<and> (\<forall>user. find_by_email (Some docs) email = Inr (Some user) \<and> u_otp user \<noteq> Some otp \<longrightarrow>
         verify_otp utcnow (Some docs) email otp = Inr (False, Some docs))
   \<and> (\<forall>user expires. find_by_email (Some docs) email = Inr (Some user) \<and>
         u_otp_expires user = Some expires \<and> expires \<le> utcnow \<longrightarrow>
         verify_otp utcnow (Some docs) email otp = Inr (False, Some docs))"
proof (intro conjI allI impI)
  fix db'
  assume ok: "verify_otp utcnow (Some docs) email otp = Inr (True, db')"
  then obtain user where f: "find_one (by_email email) docs = Some user"
    by (auto simp: verify_otp_def get_collection_def find_by_email_connected
        split: option.splits if_splits)
  from ok f obtain expires where u: "u_otp user = Some otp" "u_otp_expires user = Some expires"
    "utcnow < expires"
    and db': "db' = Some (update_one (by_email email)
               (\<lambda>d. d\<lparr>u_verified := True, u_otp := None, u_otp_expires := None\<rparr>) docs)"
    by (auto simp: verify_otp_def get_collection_def find_by_email_connected
        split: option.splits if_splits)
  from update_one_index[OF f] obtain k where k: "k < length docs" "docs ! k = user"
    "\<forall>j<k. \<not> by_email email (docs ! j)"
    "update_one (by_email email)
       (\<lambda>d. d\<lparr>u_verified := True, u_otp := None, u_otp_expires := None\<rparr>) docs
     = docs[k := user\<lparr>u_verified := True, u_otp := None, u_otp_expires := None\<rparr>]"
    by blast
  from find_one_Some_q[OF f] have "u_email user = email" by (simp add: by_email_def)
  with k u db' show "\<exists>k user expires. k < length docs \<and> docs ! k = user \<and>
         (\<forall>j<k. u_email (docs ! j) \<noteq> email) \<and> u_email user = email \<and>
         u_otp user = Some otp \<and> u_otp_expires user = Some expires \<and> utcnow < expires \<and>
         db' = Some (docs[k := user\<lparr>u_verified := True, u_otp := None, u_otp_expires := None\<rparr>])"
    by (auto simp: by_email_def)
qed (auto simp: verify_otp_def get_collection_def find_by_email_connected)

theorem verify_otp_spec_witness:
  "verify_otp 50 (Some [alice, bob]) ''a@x.com'' ''123456''
     = Inr (True, Some [alice\<lparr>u_verified := True, u_otp := None, u_otp_expires := None\<rparr>, bob])
   \<and> verify_otp 50 (Some [alice, bob]) ''nobody@x.com'' ''123456'' = Inr (False, Some [alice, bob])
   \<and> verify_otp 50 (Some [alice, bob]) ''a@x.com'' ''000000'' = Inr (False, Some [alice, bob])
   \<and> verify_otp 5000 (Some [alice, bob]) ''a@x.com'' ''123456'' = Inr (False, Some [alice, bob])"
proof -
  have fa: "find_by_email (Some [alice, bob]) ''a@x.com'' = Inr (Some alice)"
    by (simp add: find_by_email_connected find_one_def by_email_def alice_def)
  have fn: "find_by_email (Some [alice, bob]) ''nobody@x.com'' = Inr None"
    by (simp add: find_by_email_connected find_one_def by_email_def alice_def bob_def)
  have a1: "u_otp alice = Some ''123456''" and a2: "u_otp_expires alice = Some 5000"
    and a3: "u_otp alice \<noteq> Some ''000000''" and a4: "u_email bob \<noteq> ''a@x.com''"
    by (simp_all add: alice_def bob_def)
  note t1 = verify_otp_spec [of 50 "[alice, bob]" "''a@x.com''" "''123456''"]
  from t1 fa a1 a2 obtain db' where
    ok: "verify_otp 50 (Some [alice, bob]) ''a@x.com'' ''123456'' = Inr (True, db')"
    by fastforce
  with t1 obtain k where k: "k < length [alice, bob]"
    "\<forall>j<k. u_email ([alice, bob] ! j) \<noteq> ''a@x.com''" "u_email ([alice, bob] ! k) = ''a@x.com''"
    "db' = Some ([alice, bob][k := ([alice, bob] ! k)
             \<lparr>u_verified := True, u_otp := None, u_otp_expires := None\<rparr>])"
    by blast
  from k(1) have "k = 0 \<or> k = 1" by auto
  with k(3) a4 have "k = 0" by auto
  with k(4) ok have c1: "verify_otp 50 (Some [alice, bob]) ''a@x.com'' ''123456''
     = Inr (True, Some [alice\<lparr>u_verified := True, u_otp := None, u_otp_expires := None\<rparr>, bob])"
    by simp
  from verify_otp_spec [of 50 "[alice, bob]" "''nobody@x.com''" "''123456''"] fn
  have c2: "verify_otp 50 (Some [alice, bob]) ''nobody@x.com'' ''123456''
     = Inr (False, Some [alice, bob])" by blast
  from verify_otp_spec [of 50 "[alice, bob]" "''a@x.com''" "''000000''"] fa a3
  have c3: "verify_otp 50 (Some [alice, bob]) ''a@x.com'' ''000000''
     = Inr (False, Some [alice, bob])" by blast
  from verify_otp_spec [of 5000 "[alice, bob]" "''a@x.com''" "''123456''"] fa a2
  have c4: "verify_otp 5000 (Some [alice, bob]) ''a@x.com'' ''123456''
     = Inr (False, Some [alice, bob])" by fastforce
  from c1 c2 c3 c4 show ?thesis by blast
qed

subsection \<open>A code is accepted once\<close>

lemma by_email_otp_update:
  "by_email email (d\<lparr>u_otp := a, u_otp_expires := b\<rparr>) = by_email email d"
  by (simp add: by_email_def)

lemma by_email_verified_update:
  "by_email email (d\<lparr>u_verified := v, u_otp := a, u_otp_expires := b\<rparr>) = by_email email d"
  by (simp add: by_email_def)

lemma set_otp_connected:
  "set_otp utcnow (Some docs) email otp =
     Inr (Some (update_one (by_email email)
       (\<lambda>d. d\<lparr>u_otp := Some otp,
              u_otp_expires := Some (bson_datetime (utcnow + timedelta_minutes 10))\<rparr>) docs))"
  by (simp add: set_otp_def get_collection_def)

lemma find_after_set_otp:
  "find_one (by_email email) (update_one (by_email email)
       (\<lambda>d. d\<lparr>u_otp := a, u_otp_expires := b\<rparr>) docs)
   = map_option (\<lambda>d. d\<lparr>u_otp := a, u_otp_expires := b\<rparr>) (find_one (by_email email) docs)"
  by (rule find_one_update_one) (rule by_email_otp_update)

lemma find_after_verify:
  "find_one (by_email email) (update_one (by_email email)
       (\<lambda>d. d\<lparr>u_verified := v, u_otp := a, u_otp_expires := b\<rparr>) docs)
   = map_option (\<lambda>d. d\<lparr>u_verified := v, u_otp := a, u_otp_expires := b\<rparr>)
       (find_one (by_email email) docs)"
  by (rule find_one_update_one) (rule by_email_verified_update)

lemma verify_otp_connected:
  "verify_otp utcnow (Some docs) email otp =
     (case find_one (by_email email) docs of
        None \<Rightarrow> Inr (False, Some docs)
      | Some user \<Rightarrow>
          if u_otp user = Some otp then
            (case u_otp_expires user of
               None \<Rightarrow> Inl TypeError
             | Some expires \<Rightarrow>
                 if utcnow < expires
                 then Inr (True, Some (update_one (by_email email)
                        (\<lambda>d. d\<lparr>u_verified := True, u_otp := None, u_otp_expires := None\<rparr>) docs))
                 else Inr (False, Some docs))
          else Inr (False, Some docs))"
  by (simp add: verify_otp_def get_collection_def find_by_email_connected split: option.splits)

text \<open>
  The expiry that \<open>verify_otp\<close> reads back is the one the store kept: any time at
  least a millisecond before \<open>t0 + 10 minutes\<close> is before it, and a time in the last
  fraction of a millisecond need not be.
\<close>

lemma stored_expiry_window:
  "t1 + 1000 \<le> t0 + timedelta_minutes 10 \<Longrightarrow> t1 < bson_datetime (t0 + timedelta_minutes 10)"
  using bson_datetime_within [of "t0 + timedelta_minutes 10"] by linarith

lemma otp_rejected_in_last_millisecond:
  "\<exists>db1. set_otp 100 (Some [alice, bob]) ''b@x.com'' ''777777'' = Inr db1 \<and>
         verify_otp 600000050 db1 ''b@x.com'' ''777777'' = Inr (False, db1)"
  by (simp add: set_otp_connected verify_otp_connected find_one_def by_email_def
      alice_def bob_def bson_datetime_def timedelta_minutes_def)

text \<open>
  Claim C6. For every document found for an email on a connected store: after
  \<open>set_otp\<close> stores a code at time \<open>t0\<close>, \<open>verify_otp\<close> with that code at a time \<open>t1\<close>
  before the stored expiry (\<open>t0 + 10 minutes\<close> as the store keeps it, to the
  millisecond) returns true and leaves the document with \<open>otp\<close> and \<open>otp_expires\<close>
  cleared and \<open>verified\<close> set; every later \<open>verify_otp\<close> with the same code, at any
  time \<open>t2\<close>, returns false and changes nothing.
\<close>

theorem otp_accepted_once:
  assumes "find_by_email (Some docs) email = Inr (Some user)"
    and "t1 < bson_datetime (t0 + timedelta_minutes 10)"
  shows "\<exists>db1 db2.
           set_otp t0 (Some docs) email otp = Inr db1 \<and>
           verify_otp t1 db1 email otp = Inr (True, db2) \<and>
           find_by_email db2 email
             = Inr (Some (user\<lparr>u_verified := True, u_otp := None, u_otp_expires := None\<rparr>)) \<and>
           (\<forall>t2. verify_otp t2 db2 email otp = Inr (False, db2))"
proof -
  let ?f1 = "\<lambda>d::('a, 'b) user_doc.
    d\<lparr>u_otp := Some otp, u_otp_expires := Some (bson_datetime (t0 + timedelta_minutes 10))\<rparr>"
  let ?f2 = "\<lambda>d::('a, 'b) user_doc. d\<lparr>u_verified := True, u_otp := None, u_otp_expires := None\<rparr>"
  let ?docs1 = "update_one (by_email email) ?f1 docs"
  let ?docs2 = "update_one (by_email email) ?f2 ?docs1"
  from assms(1) have f0: "find_one (by_email email) docs = Some user"
    by (simp add: find_by_email_connected)
  have s: "set_otp t0 (Some docs) email otp = Inr (Some ?docs1)"
    by (rule set_otp_connected)
  have f1: "find_one (by_email email) ?docs1 = Some (?f1 user)"
    by (simp add: find_after_set_otp f0)
  have v1: "verify_otp t1 (Some ?docs1) email otp = Inr (True, Some ?docs2)"
    using assms(2) by (simp add: verify_otp_connected f1)
  have f2: "find_one (by_email email) ?docs2 = Some (?f2 (?f1 user))"
    by (simp add: find_after_verify f1)
  have f2': "find_by_email (Some ?docs2) email = Inr (Some (?f2 user))"
    using f2 by (simp add: find_by_email_connected)
  have v2: "verify_otp t2 (Some ?docs2) email otp = Inr (False, Some ?docs2)" for t2
    by (simp add: verify_otp_connected f2)
  from s v1 f2' v2 show ?thesis by blast
qed

theorem otp_accepted_once_witness:
  "find_by_email (Some [alice, bob]) ''b@x.com'' = Inr (Some bob) \<and>
   (200 :: nat) < bson_datetime (100 + timedelta_minutes 10) \<and>
   (\<exists>db1 db2.
      set_otp 100 (Some [alice, bob]) ''b@x.com'' ''777777'' = Inr db1 \<and>
      verify_otp 200 db1 ''b@x.com'' ''777777'' = Inr (True, db2) \<and>
      find_by_email db2 ''b@x.com''
        = Inr (Some (bob\<lparr>u_verified := True, u_otp := None, u_otp_expires := None\<rparr>)) \<and>
      verify_otp 300 db2 ''b@x.com'' ''777777'' = Inr (False, db2))"
proof -
  have h1: "find_by_email (Some [alice, bob]) ''b@x.com'' = Inr (Some bob)"
    by (simp add: find_by_email_connected find_one_def by_email_def alice_def bob_def)
  have h2: "(200 :: nat) < bson_datetime (100 + timedelta_minutes 10)"
    by (simp add: timedelta_minutes_def bson_datetime_def)
  from otp_accepted_once [OF h1 h2, of "''777777''"] h1 h2 show ?thesis by blast
qed

subsection \<open>Deleting a reminder by position\<close>

lemma length_pop: "i < length xs \<Longrightarrow> length (pop xs i) = length xs - 1"
  by (simp add: pop_def)

lemma nth_pop_before: "i < length xs \<Longrightarrow> j < i \<Longrightarrow> pop xs i ! j = xs ! j"
  by (simp add: pop_def nth_append)

lemma nth_pop_after:
  "i < length xs \<Longrightarrow> i \<le> j \<Longrightarrow> j < length xs - 1 \<Longrightarrow> pop xs i ! j = xs ! Suc j"
  by (simp add: pop_def nth_append min_def)

text \<open>
  Claim C4. Let the document found for the email on a connected store have a reminder
  sequence of length \<open>n\<close>. With an index outside \<open>[0, n)\<close>, negative ones included,
  \<open>delete_reminder\<close> returns false and the store is unchanged. With an index \<open>i\<close> in
  \<open>[0, n)\<close> it returns true, and the store differs only in that document, whose
  reminder sequence now has length \<open>n - 1\<close>, agrees with the old one below \<open>i\<close>, and
  holds at each position \<open>j \<ge> i\<close> the old element of position \<open>j + 1\<close>.
\<close>

theorem delete_reminder_spec:
  assumes "find_by_email (Some docs) email = Inr (Some user)"
    and "u_reminders user = Some reminders"
  shows "(\<not> (0 \<le> i \<and> i < int (length reminders)) \<longrightarrow>
            delete_reminder (Some docs) email i = Inr (False, Some docs))
       \<and> (0 \<le> i \<and> i < int (length reminders) \<longrightarrow>
            (\<exists>k reminders'.
               k < length docs \<and> docs ! k = user \<and>
               delete_reminder (Some docs) email i
                 = Inr (True, Some (docs[k := user\<lparr>u_reminders := Some reminders'\<rparr>])) \<and>
               length reminders' = length reminders - 1 \<and>
               (\<forall>j. j < nat i \<longrightarrow> reminders' ! j = reminders ! j) \<and>
               (\<forall>j. nat i \<le> j \<and> j < length reminders' \<longrightarrow> reminders' ! j = reminders ! Suc j)))"
proof (intro conjI impI)
  assume "\<not> (0 \<le> i \<and> i < int (length reminders))"
  with assms show "delete_reminder (Some docs) email i = Inr (False, Some docs)"
    by (auto simp: delete_reminder_def)
next
  assume inb: "0 \<le> i \<and> i < int (length reminders)"
  then have ni: "nat i < length reminders" by linarith
  let ?rs = "pop reminders (nat i)"
  from assms(1) have f: "find_one (by_email email) docs = Some user"
    by (simp add: find_by_email_connected)
  from update_one_index [OF f, of "\<lambda>d. d\<lparr>u_reminders := Some ?rs\<rparr>"]
  obtain k where k: "k < length docs" "docs ! k = user"
    "update_one (by_email email) (\<lambda>d. d\<lparr>u_reminders := Some ?rs\<rparr>) docs
       = docs[k := user\<lparr>u_reminders := Some ?rs\<rparr>]"
    by blast
  have d: "delete_reminder (Some docs) email i
             = Inr (True, Some (docs[k := user\<lparr>u_reminders := Some ?rs\<rparr>]))"
    using assms inb k(3) by (simp add: delete_reminder_def get_collection_def)
  have l: "length ?rs = length reminders - 1" by (rule length_pop [OF ni])
  have b: "\<forall>j. j < nat i \<longrightarrow> ?rs ! j = reminders ! j"
    using nth_pop_before [OF ni] by blast
  have a: "\<forall>j. nat i \<le> j \<and> j < length ?rs \<longrightarrow> ?rs ! j = reminders ! Suc j"
    using nth_pop_after [OF ni] l by simp
  from k(1,2) d l b a
  show "\<exists>k reminders'.
          k < length docs \<and> docs ! k = user \<and>
          delete_reminder (Some docs) email i
            = Inr (True, Some (docs[k := user\<lparr>u_reminders := Some reminders'\<rparr>])) \<and>
          length reminders' = length reminders - 1 \<and>
          (\<forall>j. j < nat i \<longrightarrow> reminders' ! j = reminders ! j) \<and>
          (\<forall>j. nat i \<le> j \<and> j < length reminders' \<longrightarrow> reminders' ! j = reminders ! Suc j)"
    by blast
qed

theorem delete_reminder_spec_witness:
  "find_by_email (Some [alice, bob]) ''a@x.com'' = Inr (Some alice) \<and>
   u_reminders alice = Some [''r0'', ''r1'', ''r2''] \<and>
   delete_reminder (Some [alice, bob]) ''a@x.com'' 3 = Inr (False, Some [alice, bob]) \<and>
   delete_reminder (Some [alice, bob]) ''a@x.com'' (- 1) = Inr (False, Some [alice, bob]) \<and>
   delete_reminder (Some [alice, bob]) ''a@x.com'' 1
     = Inr (True, Some [alice\<lparr>u_reminders := Some [''r0'', ''r2'']\<rparr>, bob])"
proof -
  have h1: "find_by_email (Some [alice, bob]) ''a@x.com'' = Inr (Some alice)"
    by (simp add: find_by_email_connected find_one_def by_email_def alice_def)
  have h2: "u_reminders alice = Some [''r0'', ''r1'', ''r2'']"
    by (simp add: alice_def)
  have ne: "bob \<noteq> alice" by (simp add: alice_def bob_def)
  from delete_reminder_spec [OF h1 h2, of 3]
  have c1: "delete_reminder (Some [alice, bob]) ''a@x.com'' 3 = Inr (False, Some [alice, bob])"
    by simp
  from delete_reminder_spec [OF h1 h2, of "- 1"]
  have c2: "delete_reminder (Some [alice, bob]) ''a@x.com'' (- 1) = Inr (False, Some [alice, bob])"
    by simp
  from delete_reminder_spec [OF h1 h2, of 1]
  obtain k rs where k: "k < length [alice, bob]" "[alice, bob] ! k = alice"
    and d: "delete_reminder (Some [alice, bob]) ''a@x.com'' 1
              = Inr (True, Some ([alice, bob][k := alice\<lparr>u_reminders := Some rs\<rparr>]))"
    and l: "length rs = length [''r0'', ''r1'', ''r2''] - 1"
    and b: "\<forall>j. j < nat 1 \<longrightarrow> rs ! j = [''r0'', ''r1'', ''r2''] ! j"
    and a: "\<forall>j. nat 1 \<le> j \<and> j < length rs \<longrightarrow> rs ! j = [''r0'', ''r1'', ''r2''] ! Suc j"
    by auto
  from k have "k = 0 \<or> k = 1" by auto
  with k(2) ne have k0: "k = 0" by auto
  from l have l2: "length rs = 2" by simp
  from b have r0: "rs ! 0 = ''r0''" by simp
  from a l2 have r1: "rs ! 1 = ''r2''" by simp
  from l2 r0 r1 have "rs = [''r0'', ''r2'']"
    by (cases rs; cases "tl rs"; cases "tl (tl rs)") auto
  with d k0 have c3: "delete_reminder (Some [alice, bob]) ''a@x.com'' 1
     = Inr (True, Some [alice\<lparr>u_reminders := Some [''r0'', ''r2'']\<rparr>, bob])"
    by simp
  from h1 h2 c1 c2 c3 show ?thesis by blast
qed

subsection \<open>Account creation on a fresh email\<close>

text \<open>
  Claim C8, as stated, fails when the password or the federated key is the empty
  string: \<^verbatim>\<open>if password\<close> and \<^verbatim>\<open>if google_id\<close> treat it as absent, so
  \<^verbatim>\<open>create_user("f@x.com", "Frank", "", "")\<close> stores no hash for the password it was
  given and leaves \<open>verified\<close> false although a key was supplied.
\<close>

theorem create_user_fresh_counterexample:
  "create_user sample_gph 0 1000 4 (Some [alice, bob]) ''f@x.com'' (Some ''Frank'')
     (Some []) (Some []) = Inr (Some frank, Some [alice, bob, frank]) \<and>
   u_password_hash frank = None \<and>
   u_password_hash frank \<noteq> Some (sample_gph 0 []) \<and>
   u_google_id frank = Some [] \<and>
   u_verified frank = False"
proof (intro conjI)
  have "find_one (by_email ''f@x.com'') [alice, bob] = None"
    by (simp add: find_one_def by_email_def alice_def bob_def)
  then show "create_user sample_gph 0 1000 4 (Some [alice, bob]) ''f@x.com'' (Some ''Frank'')
      (Some []) (Some []) = Inr (Some frank, Some [alice, bob, frank])"
    by (simp add: create_user_def get_collection_def find_by_email_connected insert_one_def
        bson_document_def bson_datetime_def Let_def truthy_def frank_def default_profile_def)
qed (simp_all add: frank_def)

text \<open>
  Claim C8, amended. On a connected store with no document for the email,
  \<open>create_user\<close> appends one document to the store and returns the document it
  inserted, identifier included; the stored copy differs from the returned one only in
  \<open>created_at\<close>, which the store keeps to the millisecond. The password hash is the
  hash of the given password when that password is a non-empty string, and null when no
  password or the empty string is given; \<open>verified\<close> is true exactly when the federated
  key is a non-empty string; the one-time code and its expiry are null, the
  consultation list is empty, the profile is the default one, and there is no
  reminders field.
\<close>

theorem create_user_fresh:
  assumes "email \<notin> u_email ` set docs"
  shows "\<exists>user_data.
           create_user gph salt utcnow inserted_id (Some docs) email name password google_id
             = Inr (Some user_data,
                    Some (docs @ [user_data\<lparr>u_created_at := bson_datetime utcnow\<rparr>])) \<and>
           u_id user_data = inserted_id \<and>
           u_email user_data = email \<and>
           u_name user_data = name \<and>
           u_password_hash user_data =
             (case password of
                None \<Rightarrow> None
              | Some p \<Rightarrow> if p = [] then None else Some (gph salt p)) \<and>
           u_google_id user_data = google_id \<and>
           u_created_at user_data = utcnow \<and>
           u_verified user_data = (case google_id of None \<Rightarrow> False | Some g \<Rightarrow> g \<noteq> []) \<and>
           u_otp user_data = None \<and>
           u_otp_expires user_data = None \<and>
           u_consultations user_data = Some [] \<and>
           u_profile user_data
             = \<lparr> age = None, weight = None, allergies = [], medical_conditions = [] \<rparr> \<and>
           u_reminders user_data = None"
proof -
  let ?u = "\<lparr> u_id = inserted_id, u_email = email, u_name = name,
              u_password_hash = (if truthy password then Some (gph salt (the password)) else None),
              u_google_id = google_id, u_created_at = utcnow,
              u_verified = truthy google_id, u_otp = None, u_otp_expires = None,
              u_consultations = Some [],
              u_profile = \<lparr> age = None, weight = None, allergies = [], medical_conditions = [] \<rparr>,
              u_reminders = None \<rparr> :: ('a, 'b) user_doc"
  from assms have "find_one (by_email email) docs = None"
    by (simp add: find_one_by_email_None)
  then have c: "create_user gph salt utcnow inserted_id (Some docs) email name password google_id
             = Inr (Some ?u, Some (docs @ [?u\<lparr>u_created_at := bson_datetime utcnow\<rparr>]))"
    by (simp add: create_user_def get_collection_def find_by_email_connected insert_one_def
        bson_document_def Let_def)
  have p: "u_password_hash ?u =
             (case password of
                None \<Rightarrow> None
              | Some p \<Rightarrow> if p = [] then None else Some (gph salt p))"
    by (simp add: truthy_def split: option.splits)
  have v: "u_verified ?u = (case google_id of None \<Rightarrow> False | Some g \<Rightarrow> g \<noteq> [])"
    by (simp add: truthy_def split: option.splits)
  show ?thesis
    by (rule exI [of _ ?u], intro conjI, rule c, simp, simp, simp, rule p, simp, simp,
        rule v, simp, simp, simp, simp, simp)
qed

theorem create_user_fresh_witness:
  "''c@x.com'' \<notin> u_email ` set [alice, bob] \<and>
   (\<exists>user_data.
      create_user sample_gph 5 7250 3 (Some [alice, bob]) ''c@x.com'' (Some ''Carol'')
        (Some ''pw3'') None
        = Inr (Some user_data, Some ([alice, bob] @ [user_data\<lparr>u_created_at := 7000\<rparr>])) \<and>
      u_id user_data = 3 \<and>
      u_created_at user_data = 7250 \<and>
      u_password_hash user_data = Some (sample_gph 5 ''pw3'') \<and>
      u_verified user_data = False \<and>
      u_otp user_data = None \<and> u_otp_expires user_data = None \<and>
      u_consultations user_data = Some [])"
proof -
  have h: "''c@x.com'' \<notin> u_email ` set [alice, bob]" by (simp add: alice_def bob_def)
  have b: "bson_datetime 7250 = 7000" by (simp add: bson_datetime_def)
  from create_user_fresh [OF h, of sample_gph 5 7250 3 "Some ''Carol''" "Some ''pw3''" None] h b
  show ?thesis by auto
qed

subsection \<open>Password round trip\<close>

lemma find_one_append_fresh:
  "find_one q ds = None \<Longrightarrow> q u \<Longrightarrow> find_one q (ds @ [u]) = Some u"
  by (induction ds) (auto simp: find_one_def split: if_splits)

lemma create_user_fresh_doc:
  assumes "email \<notin> u_email ` set docs"
  shows "\<exists>u. create_user gph salt utcnow inserted_id (Some docs) email name password google_id
               = Inr (Some u, Some (docs @ [u\<lparr>u_created_at := bson_datetime utcnow\<rparr>])) \<and>
             u_email u = email \<and>
             u_password_hash u =
               (if truthy password then Some (gph salt (the password)) else None) \<and>
             u_otp u = None \<and> u_otp_expires u = None"
proof -
  from assms have "find_one (by_email email) docs = None"
    by (simp add: find_one_by_email_None)
  then show ?thesis
    by (simp add: create_user_def get_collection_def find_by_email_connected insert_one_def
        bson_document_def Let_def)
qed

lemma sample_hash_accepts_own: "hash_accepts_own sample_gph sample_cph"
  by (simp add: hash_accepts_own_def sample_gph_def sample_cph_def)

text \<open>
  Claim C5, as stated, fails for the empty password: \<^verbatim>\<open>if password\<close> treats the empty
  string as no password, so \<^verbatim>\<open>create_user("e@x.com", "Erin", "")\<close> stores no hash and
  \<^verbatim>\<open>verify_password("e@x.com", "")\<close> returns false, with a hash library that accepts
  the password of every hash it generates.
\<close>

theorem password_round_trip_counterexample:
  "hash_accepts_own sample_gph sample_cph \<and>
   create_user sample_gph 0 1000 3 (Some [alice, bob]) ''e@x.com'' (Some ''Erin'') (Some []) None
     = Inr (Some erin, Some [alice, bob, erin]) \<and>
   verify_password sample_cph (Some [alice, bob, erin]) ''e@x.com'' [] = Inr False"
proof (intro conjI)
  show "hash_accepts_own sample_gph sample_cph" by (rule sample_hash_accepts_own)
  have "find_one (by_email ''e@x.com'') [alice, bob] = None"
    by (simp add: find_one_def by_email_def alice_def bob_def)
  then show "create_user sample_gph 0 1000 3 (Some [alice, bob]) ''e@x.com'' (Some ''Erin'')
      (Some []) None = Inr (Some erin, Some [alice, bob, erin])"
    by (simp add: create_user_def get_collection_def find_by_email_connected insert_one_def
        bson_document_def bson_datetime_def Let_def truthy_def erin_def default_profile_def)
  have "find_one (by_email ''e@x.com'') [alice, bob, erin] = Some erin"
    by (simp add: find_one_def by_email_def alice_def bob_def erin_def)
  then show "verify_password sample_cph (Some [alice, bob, erin]) ''e@x.com'' [] = Inr False"
    by (simp add: verify_password_def find_by_email_connected truthy_def erin_def)
qed

text \<open>
  For a password other than the one the account was created with, \<open>verify_password\<close>
  returns whatever the library's check returns on the stored hash, and that need not be
  false: on the account that the sample library creates for \<^verbatim>\<open>pw1\<close>, the password
  \<^verbatim>\<open>pw1\<close> followed by a NUL byte is accepted.
\<close>

lemma verify_password_other_accepted:
  "\<exists>user_data db1.
     create_user sample_gph 0 1000 1 (Some ([] :: (string, string) user_doc list)) ''a@x.com''
       (Some ''Alice'') (Some ''pw1'') None = Inr (Some user_data, db1) \<and>
     ''pw1'' @ [CHR 0x00] \<noteq> ''pw1'' \<and>
     verify_password sample_cph db1 ''a@x.com'' (''pw1'' @ [CHR 0x00]) = Inr True"
  by (simp add: create_user_def get_collection_def find_by_email_connected insert_one_def
      bson_document_def Let_def truthy_def verify_password_def find_one_def by_email_def
      sample_gph_def sample_cph_def strip_nul_def)

text \<open>
  Claim C5, amended. Let the hash library accept the password of every hash it
  generates, a generated hash being a non-empty string. On a connected store with no
  document for the email, \<open>create_user\<close> with a password returns the new document, and
  on the store after it: if the password is not the empty string, \<open>verify_password\<close>
  with the same email returns true for that password, and for every other password it
  returns what the library's check returns for that password on the stored hash; if
  the password is the empty string, no hash is stored and \<open>verify_password\<close> returns
  false for every supplied password.
\<close>

theorem password_round_trip:
  assumes "hash_accepts_own gph cph"
    and "email \<notin> u_email ` set docs"
  shows "\<exists>user_data db1.
           create_user gph salt utcnow inserted_id (Some docs) email name (Some password) google_id
             = Inr (Some user_data, db1) \<and>
           (password \<noteq> [] \<longrightarrow>
              u_password_hash user_data = Some (gph salt password) \<and>
              verify_password cph db1 email password = Inr True \<and>
              (\<forall>candidate.
                 verify_password cph db1 email candidate
                   = Inr (cph (gph salt password) candidate))) \<and>
           (password = [] \<longrightarrow>
              u_password_hash user_data = None \<and>
              (\<forall>candidate. verify_password cph db1 email candidate = Inr False))"
proof -
  from create_user_fresh_doc [OF assms(2), of gph salt utcnow inserted_id name "Some password" google_id]
  obtain u where c: "create_user gph salt utcnow inserted_id (Some docs) email name
      (Some password) google_id
        = Inr (Some u, Some (docs @ [u\<lparr>u_created_at := bson_datetime utcnow\<rparr>]))"
    and e: "u_email u = email"
    and h: "u_password_hash u = (if password = [] then None else Some (gph salt password))"
    by (auto simp: truthy_def)
  let ?stored = "u\<lparr>u_created_at := bson_datetime utcnow\<rparr>"
  from assms(2) have "find_one (by_email email) docs = None"
    by (simp add: find_one_by_email_None)
  with e have f: "find_one (by_email email) (docs @ [?stored]) = Some ?stored"
    by (simp add: find_one_append_fresh by_email_def)
  from assms(1) have ne: "gph salt password \<noteq> []" and own: "cph (gph salt password) password"
    by (simp_all add: hash_accepts_own_def)
  have v: "verify_password cph (Some (docs @ [?stored])) email candidate =
             (if password = [] then Inr False else Inr (cph (gph salt password) candidate))"
    for candidate
    using ne h f by (simp add: verify_password_def find_by_email_connected truthy_def)
  show ?thesis
    by (rule exI [of _ u], rule exI [of _ "Some (docs @ [?stored])"]) (simp add: c v h own)
qed

theorem password_round_trip_witness:
  "hash_accepts_own sample_gph sample_cph \<and>
   ''a@x.com'' \<notin> u_email ` set ([] :: (string, string) user_doc list) \<and>
   (\<exists>user_data db1.
      create_user sample_gph 0 1000 1 (Some ([] :: (string, string) user_doc list)) ''a@x.com''
        (Some ''Alice'') (Some ''pw1'') None = Inr (Some user_data, db1) \<and>
      verify_password sample_cph db1 ''a@x.com'' ''pw1'' = Inr True \<and>
      verify_password sample_cph db1 ''a@x.com'' ''wrong''
        = Inr (sample_cph (sample_gph 0 ''pw1'') ''wrong'') \<and>
      sample_cph (sample_gph 0 ''pw1'') ''wrong'' = False)"
proof -
  have h: "''a@x.com'' \<notin> u_email ` set ([] :: (string, string) user_doc list)" by simp
  from password_round_trip [OF sample_hash_accepts_own h, of 0 1000 1 "Some ''Alice''" "''pw1''" None]
  obtain user_data db1 where
    c: "create_user sample_gph 0 1000 1 (Some ([] :: (string, string) user_doc list)) ''a@x.com''
          (Some ''Alice'') (Some ''pw1'') None = Inr (Some user_data, db1)"
    and t: "''pw1'' \<noteq> [] \<longrightarrow>
              u_password_hash user_data = Some (sample_gph 0 ''pw1'') \<and>
              verify_password sample_cph db1 ''a@x.com'' ''pw1'' = Inr True \<and>
              (\<forall>candidate.
                 verify_password sample_cph db1 ''a@x.com'' candidate
                   = Inr (sample_cph (sample_gph 0 ''pw1'') candidate))"
    by blast
  have n: "''pw1'' \<noteq> []" by simp
  from t n have t1: "verify_password sample_cph db1 ''a@x.com'' ''pw1'' = Inr True"
    and t2: "verify_password sample_cph db1 ''a@x.com'' ''wrong''
               = Inr (sample_cph (sample_gph 0 ''pw1'') ''wrong'')"
    by blast+
  have t3: "sample_cph (sample_gph 0 ''pw1'') ''wrong'' = False"
    by (simp add: sample_gph_def sample_cph_def strip_nul_def)
  from sample_hash_accepts_own h c t1 t2 t3 show ?thesis by blast
qed

subsection \<open>The code and its expiry are set and cleared together\<close>

lemma list_all_update_one:
  "list_all P ds \<Longrightarrow> (\<And>d. P d \<Longrightarrow> P (upd d)) \<Longrightarrow> list_all P (update_one q upd ds)"
  by (induction ds) auto

lemma create_user_existing_store:
  assumes "email \<in> u_email ` set docs"
  shows "create_user gph salt utcnow inserted_id (Some docs) email name password google_id
           = Inr (None, Some docs)"
proof -
  from assms have "find_one (by_email email) docs \<noteq> None"
    by (simp add: find_one_by_email_None)
  then obtain d where "find_one (by_email email) docs = Some d" by blast
  then show ?thesis
    by (simp add: create_user_def get_collection_def find_by_email_connected)
qed

lemma create_user_paired:
  assumes "store_paired db"
    and "create_user gph salt utcnow inserted_id db email name password google_id
           = Inr (created, db')"
  shows "store_paired db'"
proof (cases db)
  case None
  with assms(2) show ?thesis by (simp add: create_user_def get_collection_def)
next
  case (Some docs)
  show ?thesis
  proof (cases "email \<in> u_email ` set docs")
    case True
    from create_user_existing_store [OF True] assms Some show ?thesis by simp
  next
    case False
    from create_user_fresh_doc [OF False, of gph salt utcnow inserted_id name password google_id]
    obtain u where "create_user gph salt utcnow inserted_id (Some docs) email name password
        google_id = Inr (Some u, Some (docs @ [u\<lparr>u_created_at := bson_datetime utcnow\<rparr>]))"
      and "u_otp u = None" "u_otp_expires u = None"
      by blast
    with assms Some show ?thesis by (auto simp: store_paired_def otp_paired_def)
  qed
qed

lemma set_otp_paired:
  assumes "store_paired db" and "set_otp utcnow db email otp = Inr db'"
  shows "store_paired db'"
proof (cases db)
  case None
  with assms(2) show ?thesis by (simp add: set_otp_def get_collection_def)
next
  case (Some docs)
  with assms(1) have "list_all otp_paired docs" by (simp add: store_paired_def)
  then have "list_all otp_paired (update_one (by_email email)
      (\<lambda>d. d\<lparr>u_otp := Some otp,
             u_otp_expires := Some (bson_datetime (utcnow + timedelta_minutes 10))\<rparr>) docs)"
    by (rule list_all_update_one) (simp add: otp_paired_def)
  with assms(2) Some show ?thesis by (auto simp: set_otp_connected store_paired_def)
qed

lemma verify_otp_paired:
  assumes "store_paired db" and "verify_otp utcnow db email otp = Inr (ok, db')"
  shows "store_paired db'"
proof (cases db)
  case None
  with assms(2) show ?thesis by (simp add: verify_otp_def get_collection_def)
next
  case (Some docs)
  with assms(1) have p: "list_all otp_paired docs" by (simp add: store_paired_def)
  then have "list_all otp_paired (update_one (by_email email)
      (\<lambda>d. d\<lparr>u_verified := True, u_otp := None, u_otp_expires := None\<rparr>) docs)"
    by (rule list_all_update_one) (simp add: otp_paired_def)
  with assms(2) Some p show ?thesis
    by (auto simp: verify_otp_connected store_paired_def split: option.splits if_splits)
qed

lemma step_paired: "store_paired db \<Longrightarrow> store_paired (step gph db op)"
proof (cases op)
  case (CreateUser salt utcnow inserted_id email name password google_id)
  assume "store_paired db"
  with CreateUser show ?thesis
    by (auto split: sum.splits dest: create_user_paired)
next
  case (SetOtp utcnow email otp)
  assume "store_paired db"
  with SetOtp show ?thesis
    by (auto split: sum.splits dest: set_otp_paired)
next
  case (VerifyOtp utcnow email otp)
  assume "store_paired db"
  with VerifyOtp show ?thesis
    by (auto split: sum.splits dest: verify_otp_paired)
qed

lemma run_paired: "store_paired db \<Longrightarrow> store_paired (run gph ops db)"
  unfolding run_def by (induction ops arbitrary: db) (simp_all add: step_paired)

text \<open>
  \<open>verify_otp\<close> raises only on a document whose code is set while its expiry is
  null; on a connected store whose documents keep the two fields paired it always
  returns.
\<close>

lemma verify_otp_type_error:
  assumes "find_by_email (Some docs) email = Inr (Some user)"
    and "u_otp user = Some otp" and "u_otp_expires user = None"
  shows "verify_otp utcnow (Some docs) email otp = Inl TypeError"
  using assms by (simp add: verify_otp_connected find_by_email_connected)

lemma verify_otp_returns_on_paired:
  assumes "store_paired (Some docs)"
  shows "verify_otp utcnow (Some docs) email otp \<noteq> Inl e"
proof (cases "find_one (by_email email) docs")
  case None
  then show ?thesis by (auto simp: verify_otp_connected)
next
  case (Some user)
  then have "user \<in> set docs" by (simp add: find_one_Some_q)
  with assms have "otp_paired user" by (simp add: store_paired_def list_all_iff)
  then have "u_otp user = Some otp \<Longrightarrow> u_otp_expires user \<noteq> None"
    by (auto simp: otp_paired_def)
  with Some show ?thesis by (auto simp: verify_otp_connected split: if_splits)
qed

text \<open>
  Claim C9. In every document of every store reached from the empty connected store
  by \<open>create_user\<close>, \<open>set_otp\<close> and \<open>verify_otp\<close> calls, \<open>otp\<close> and \<open>otp_expires\<close> are
  null together or non-null together. \<open>set_otp\<close> on an existing user sets both, the
  code and the expiry 10 minutes after the clock, whatever was stored before; a
  \<open>verify_otp\<close> that returns true leaves the user with both cleared and \<open>verified\<close>
  set; a document that \<open>create_user\<close> creates has both null. The expiry found in the
  store is the clock plus 10 minutes as the store keeps it, to the millisecond: never
  later than that instant and less than a millisecond before it.
\<close>

theorem otp_fields_paired:
  "(\<forall>(docs :: ('c, 'r) user_doc list) d. run gph ops (Some []) = Some docs \<and> d \<in> set docs \<longrightarrow>
      ((u_otp d = None) = (u_otp_expires d = None)))
   \<and> (\<forall>(docs :: ('c, 'r) user_doc list) user. find_by_email (Some docs) email = Inr (Some user) \<longrightarrow>
        (\<exists>docs'. set_otp utcnow (Some docs) email otp = Inr (Some docs') \<and>
           find_by_email (Some docs') email
             = Inr (Some (user\<lparr>u_otp := Some otp,
                               u_otp_expires :=
                                 Some (bson_datetime (utcnow + timedelta_minutes 10))\<rparr>))))
   \<and> bson_datetime (utcnow + timedelta_minutes 10) \<le> utcnow + timedelta_minutes 10
   \<and> utcnow + timedelta_minutes 10 < bson_datetime (utcnow + timedelta_minutes 10) + 1000
   \<and> (\<forall>(docs :: ('c, 'r) user_doc list) db'. verify_otp utcnow (Some docs) email otp = Inr (True, db') \<longrightarrow>
        (\<exists>user'. find_by_email db' email = Inr (Some user') \<and>
           u_otp user' = None \<and> u_otp_expires user' = None \<and> u_verified user'))
   \<and> (\<forall>(docs :: ('c, 'r) user_doc list) salt inserted_id name password google_id user_data db'.
        create_user gph salt utcnow inserted_id (Some docs) email name password google_id
          = Inr (Some user_data, db') \<longrightarrow>
        u_otp user_data = None \<and> u_otp_expires user_data = None)"
proof -
  have p1: "(u_otp d = None) = (u_otp_expires d = None)"
    if a: "run gph ops (Some []) = Some docs \<and> d \<in> set docs"
    for docs :: "('c, 'r) user_doc list" and d
  proof -
    have "store_paired (Some ([] :: ('c, 'r) user_doc list))" by (simp add: store_paired_def)
    then have "store_paired (run gph ops (Some ([] :: ('c, 'r) user_doc list)))"
      by (rule run_paired)
    with a have "otp_paired d" by (auto simp: store_paired_def list_all_iff)
    then show ?thesis by (simp add: otp_paired_def)
  qed
  have p2: "\<exists>docs'. set_otp utcnow (Some docs) email otp = Inr (Some docs') \<and>
           find_by_email (Some docs') email
             = Inr (Some (user\<lparr>u_otp := Some otp,
                               u_otp_expires :=
                                 Some (bson_datetime (utcnow + timedelta_minutes 10))\<rparr>))"
    if "find_by_email (Some docs) email = Inr (Some user)"
    for docs :: "('c, 'r) user_doc list" and user
  proof -
    from that have "find_one (by_email email) docs = Some user"
      by (simp add: find_by_email_connected)
    then show ?thesis
      by (simp add: set_otp_connected find_by_email_connected find_after_set_otp)
  qed
  have p3: "\<exists>user'. find_by_email db' email = Inr (Some user') \<and>
           u_otp user' = None \<and> u_otp_expires user' = None \<and> u_verified user'"
    if ok: "verify_otp utcnow (Some docs) email otp = Inr (True, db')"
    for docs :: "('c, 'r) user_doc list" and db'
  proof -
    from ok obtain user where f: "find_one (by_email email) docs = Some user"
      and db': "db' = Some (update_one (by_email email)
                 (\<lambda>d. d\<lparr>u_verified := True, u_otp := None, u_otp_expires := None\<rparr>) docs)"
      by (auto simp: verify_otp_connected split: option.splits if_splits)
    have "find_by_email db' email
            = Inr (Some (user\<lparr>u_verified := True, u_otp := None, u_otp_expires := None\<rparr>))"
      by (simp add: db' find_by_email_connected find_after_verify f)
    then show ?thesis by simp
  qed
  have p4: "u_otp user_data = None \<and> u_otp_expires user_data = None"
    if c: "create_user gph salt utcnow inserted_id (Some docs) email name password google_id
          = Inr (Some user_data, db')"
    for docs :: "('c, 'r) user_doc list"
      and salt inserted_id name password google_id user_data db'
  proof -
    have fresh: "email \<notin> u_email ` set docs"
    proof
      assume "email \<in> u_email ` set docs"
      from create_user_existing_store [OF this] c show False by simp
    qed
    from create_user_fresh_doc [OF fresh, of gph salt utcnow inserted_id name password google_id] c
    show ?thesis by auto
  qed
  show ?thesis
    by (intro conjI allI impI)
      (erule p1, erule p2, rule bson_datetime_le, rule bson_datetime_within, erule p3,
        erule p4 [THEN conjunct1], erule p4 [THEN conjunct2])
qed

theorem otp_fields_paired_witness:
  "(\<exists>docs d.
      run sample_gph
        [CreateUser 0 1000 1 ''a@x.com'' (Some ''Alice'') (Some ''pw1'') None,
         SetOtp 2000 ''a@x.com'' ''123456'']
        (Some ([] :: (string, string) user_doc list)) = Some docs \<and>
      d \<in> set docs \<and> u_otp d = Some ''123456'' \<and>
      ((u_otp d = None) = (u_otp_expires d = None)))
   \<and> (\<exists>docs'. set_otp 100 (Some [alice, bob]) ''b@x.com'' ''777777'' = Inr (Some docs') \<and>
         find_by_email (Some docs') ''b@x.com''
           = Inr (Some (bob\<lparr>u_otp := Some ''777777'', u_otp_expires := Some 600000000\<rparr>)))
   \<and> (600000000 :: nat) \<le> 100 + timedelta_minutes 10
   \<and> (100 :: nat) + timedelta_minutes 10 < 600000000 + 1000
   \<and> (\<exists>db' user'. verify_otp 50 (Some [alice, bob]) ''a@x.com'' ''123456'' = Inr (True, db') \<and>
         find_by_email db' ''a@x.com'' = Inr (Some user') \<and>
         u_otp user' = None \<and> u_otp_expires user' = None \<and> u_verified user')
   \<and> create_user sample_gph 0 1000 3 (Some [alice, bob]) ''e@x.com'' (Some ''Erin'') (Some [])
         None = Inr (Some erin, Some [alice, bob, erin])
   \<and> u_otp erin = None \<and> u_otp_expires erin = None"
proof -
  let ?ops = "[CreateUser 0 1000 1 ''a@x.com'' (Some ''Alice'') (Some ''pw1'') None,
               SetOtp 2000 ''a@x.com'' ''123456'']"
  let ?d = "alice\<lparr>u_otp_expires := Some 600002000, u_reminders := None\<rparr>"
  have r: "run sample_gph ?ops (Some ([] :: (string, string) user_doc list)) = Some [?d]"
    by (simp add: run_def create_user_def get_collection_def find_by_email_connected
        find_one_def insert_one_def bson_document_def bson_datetime_def Let_def truthy_def
        set_otp_connected by_email_def timedelta_minutes_def alice_def default_profile_def)
  have o: "u_otp ?d = Some ''123456''" by (simp add: alice_def)
  have "(u_otp ?d = None) = (u_otp_expires ?d = None)"
    by (rule otp_fields_paired [where gph = sample_gph and ops = ?ops, THEN conjunct1,
          rule_format])
      (rule conjI, rule r, simp)
  with r o have c1: "\<exists>docs d.
      run sample_gph ?ops (Some ([] :: (string, string) user_doc list)) = Some docs \<and>
      d \<in> set docs \<and> u_otp d = Some ''123456'' \<and>
      ((u_otp d = None) = (u_otp_expires d = None))"
    by (intro exI [of _ "[?d]"] exI [of _ ?d]) simp
  have fb: "find_by_email (Some [alice, bob]) ''b@x.com'' = Inr (Some bob)"
    by (simp add: find_by_email_connected find_one_def by_email_def alice_def bob_def)
  have b: "bson_datetime (100 + timedelta_minutes 10) = 600000000"
    by (simp add: bson_datetime_def timedelta_minutes_def)
  note t2 = otp_fields_paired [where gph = sample_gph and ops = "[]" and utcnow = 100
      and email = "''b@x.com''" and otp = "''777777''", unfolded b]
  from t2 fb
  have c2: "\<exists>docs'. set_otp 100 (Some [alice, bob]) ''b@x.com'' ''777777'' = Inr (Some docs') \<and>
         find_by_email (Some docs') ''b@x.com''
           = Inr (Some (bob\<lparr>u_otp := Some ''777777'', u_otp_expires := Some 600000000\<rparr>))"
    by blast
  from t2 have c2b: "(600000000 :: nat) \<le> 100 + timedelta_minutes 10"
    and c2c: "(100 :: nat) + timedelta_minutes 10 < 600000000 + 1000"
    by blast+
  have fa: "find_one (by_email ''a@x.com'') [alice, bob] = Some alice"
    by (simp add: find_one_def by_email_def alice_def)
  have "u_otp alice = Some ''123456''" "u_otp_expires alice = Some 5000"
    by (simp_all add: alice_def)
  with fa obtain db' where
    v: "verify_otp 50 (Some [alice, bob]) ''a@x.com'' ''123456'' = Inr (True, db')"
    by (simp add: verify_otp_connected)
  from otp_fields_paired [where gph = sample_gph and ops = "[]" and utcnow = 50
      and email = "''a@x.com''" and otp = "''123456''"] v
  have c3: "\<exists>db' user'. verify_otp 50 (Some [alice, bob]) ''a@x.com'' ''123456'' = Inr (True, db') \<and>
         find_by_email db' ''a@x.com'' = Inr (Some user') \<and>
         u_otp user' = None \<and> u_otp_expires user' = None \<and> u_verified user'"
    by blast
  have "find_one (by_email ''e@x.com'') [alice, bob] = None"
    by (simp add: find_one_def by_email_def alice_def bob_def)
  then have c4: "create_user sample_gph 0 1000 3 (Some [alice, bob]) ''e@x.com'' (Some ''Erin'')
      (Some []) None = Inr (Some erin, Some [alice, bob, erin])"
    by (simp add: create_user_def get_collection_def find_by_email_connected insert_one_def
        bson_document_def bson_datetime_def Let_def truthy_def erin_def default_profile_def)
  from otp_fields_paired [where gph = sample_gph and ops = "[]" and utcnow = 1000
      and email = "''e@x.com''"] c4
  have c5: "u_otp erin = None \<and> u_otp_expires erin = None" by blast
  from c1 c2 c2b c2c c3 c4 c5 show ?thesis by blast
qed

subsection \<open>Consultation history\<close>

lemma mset_sort_reverse: "mset (sort_reverse key xs) = mset xs"
  by (simp add: sort_reverse_def)

lemma sorted_sort_reverse: "sorted_wrt (\<lambda>a b. key b \<le> key a) (sort_reverse key xs)"
proof -
  have "sorted (map key (sort_key key (rev xs)))" by (rule sorted_sort_key)
  then have "sorted_wrt (\<lambda>a b. key a \<le> key b) (sort_key key (rev xs))"
    by (simp add: sorted_map)
  then show ?thesis by (simp add: sort_reverse_def sorted_wrt_rev)
qed

text \<open>Records with equal keys keep the order they had before the sort.\<close>

lemma sort_reverse_stable:
  "filter (\<lambda>x. key x = k) (sort_reverse key xs) = filter (\<lambda>x. key x = k) xs"
proof -
  have "filter (\<lambda>x. key x = k) (sort_reverse key xs)
          = rev (filter (\<lambda>x. key x = k) (sort_key key (rev xs)))"
    by (simp add: sort_reverse_def rev_filter)
  also have "\<dots> = rev (filter (\<lambda>x. key x = k) (rev xs))"
    by (simp only: sort_key_stable)
  also have "\<dots> = filter (\<lambda>x. key x = k) xs"
    by (simp add: rev_filter)
  finally show ?thesis .
qed

lemma slice_to_take: "\<exists>m. slice_to xs k = take m xs"
proof (cases "0 \<le> k")
  case True
  then have "slice_to xs k = take (nat k) xs" by (simp add: slice_to_def)
  then show ?thesis ..
next
  case False
  show ?thesis
  proof (cases "int (length xs) + k \<le> 0")
    case True
    with False have "slice_to xs k = take 0 xs" by (simp add: slice_to_def)
    then show ?thesis ..
  next
    case below: False
    with False have "slice_to xs k = take (nat (int (length xs) + k)) xs"
      by (simp add: slice_to_def)
    then show ?thesis ..
  qed
qed

lemma length_slice_to: "0 \<le> k \<Longrightarrow> length (slice_to xs k) = min (nat k) (length xs)"
  by (simp add: slice_to_def min.commute)

text \<open>A negative limit \<open>- n\<close> drops the last \<open>n\<close> records instead of bounding the count.\<close>

lemma slice_to_negative:
  assumes "k < 0"
  shows "slice_to xs k = take (length xs - nat (- k)) xs"
proof -
  from assms have n: "nat (int (length xs) + k) = length xs - nat (- k)" by arith
  show ?thesis
  proof (cases "int (length xs) + k \<le> 0")
    case True
    with assms have "length xs - nat (- k) = 0" by arith
    with True assms show ?thesis by (simp add: slice_to_def)
  next
    case False
    with assms n show ?thesis by (simp add: slice_to_def)
  qed
qed

lemma take_sorted_top:
  assumes "sorted_wrt R s"
  shows "\<forall>x \<in># mset s - mset (take m s). \<forall>y \<in> set (take m s). R y x"
proof -
  have "mset s = mset (take m s) + mset (drop m s)"
    by (simp flip: mset_append)
  then have d: "mset s - mset (take m s) = mset (drop m s)" by simp
  from assms have "sorted_wrt R (take m s @ drop m s)" by simp
  then have "\<forall>y \<in> set (take m s). \<forall>x \<in> set (drop m s). R y x"
    unfolding sorted_wrt_append by blast
  with d show ?thesis by auto
qed

lemma get_consultations_found:
  assumes "find_by_email (Some docs) email = Inr (Some user)"
    and "u_consultations user = Some consultations"
  shows "get_consultations (Some docs) email limit
           = Inr (slice_to (sort_reverse timestamp_key consultations) limit)"
  using assms by (simp add: get_consultations_def)

text \<open>
  Claim C3. \<open>get_consultations\<close> returns the empty list when there is no user or no
  consultations field. Otherwise it returns records of the stored sequence, in
  descending order of timestamp, a record without a timestamp being ordered as one
  with \<^verbatim>\<open>datetime.min\<close>, so that only records without a timestamp (or with that
  minimal one) come after it; the result is a prefix of the whole sorted sequence:
  every stored record left out is no more recent than any record returned; for a
  requested limit \<open>limit \<ge> 0\<close> the result has \<open>min limit n\<close> records, \<open>n\<close> the number
  stored, hence at most \<open>limit\<close> and exactly 3 for limit 3 on 5 consultations; the
  default limit is 10.
\<close>

theorem get_consultations_spec:
  "(find_by_email (Some docs) email = Inr None \<longrightarrow>
      get_consultations (Some docs) email limit = Inr [])
   \<and> (\<forall>user. find_by_email (Some docs) email = Inr (Some user) \<and> u_consultations user = None
         \<longrightarrow> get_consultations (Some docs) email limit = Inr [])
   \<and> (\<forall>user consultations.
         find_by_email (Some docs) email = Inr (Some user) \<and>
         u_consultations user = Some consultations \<longrightarrow>
         (\<exists>result.
            get_consultations (Some docs) email limit = Inr result \<and>
            mset result \<subseteq># mset consultations \<and>
            sorted_wrt (\<lambda>a b. timestamp_key b \<le> timestamp_key a) result \<and>
            (\<forall>i j. i < j \<and> j < length result \<and> timestamp (result ! i) = None \<longrightarrow>
               timestamp_key (result ! j) = datetime_min) \<and>
            (\<forall>x \<in># mset consultations - mset result. \<forall>y \<in> set result.
               timestamp_key x \<le> timestamp_key y) \<and>
            (0 \<le> limit \<longrightarrow> length result = min (nat limit) (length consultations) \<and>
               int (length result) \<le> limit)))
   \<and> get_consultations_default (Some docs) email = get_consultations (Some docs) email 10"
proof (intro conjI allI impI)
  assume "find_by_email (Some docs) email = Inr None"
  then show "get_consultations (Some docs) email limit = Inr []"
    by (simp add: get_consultations_def)
next
  fix user
  assume "find_by_email (Some docs) email = Inr (Some user) \<and> u_consultations user = None"
  then show "get_consultations (Some docs) email limit = Inr []"
    by (simp add: get_consultations_def)
next
  fix user consultations
  assume a: "find_by_email (Some docs) email = Inr (Some user) \<and>
             u_consultations user = Some consultations"
  let ?s = "sort_reverse timestamp_key consultations"
  let ?r = "slice_to ?s limit"
  obtain m where m: "?r = take m ?s" using slice_to_take by blast
  have g: "get_consultations (Some docs) email limit = Inr ?r"
    using a by (simp add: get_consultations_found)
  have s: "sorted_wrt (\<lambda>a b. timestamp_key b \<le> timestamp_key a) ?s"
    by (rule sorted_sort_reverse)
  have ms: "mset ?s = mset consultations" by (rule mset_sort_reverse)
  have sub: "mset ?r \<subseteq># mset consultations"
  proof -
    have "mset (take m ?s) \<subseteq># mset (take m ?s) + mset (drop m ?s)" by simp
    also have "\<dots> = mset ?s" by (simp flip: mset_append)
    finally show ?thesis by (simp add: m ms)
  qed
  have sr: "sorted_wrt (\<lambda>a b. timestamp_key b \<le> timestamp_key a) ?r"
    using s by (simp add: m)
  have last: "\<forall>i j. i < j \<and> j < length ?r \<and> timestamp (?r ! i) = None \<longrightarrow>
               timestamp_key (?r ! j) = datetime_min"
  proof (intro allI impI)
    fix i j
    assume ij: "i < j \<and> j < length ?r \<and> timestamp (?r ! i) = None"
    with sr have "timestamp_key (?r ! j) \<le> timestamp_key (?r ! i)"
      by (simp add: sorted_wrt_iff_nth_less)
    with ij show "timestamp_key (?r ! j) = datetime_min"
      by (simp add: timestamp_key_def datetime_min_def)
  qed
  have top: "\<forall>x \<in># mset consultations - mset ?r. \<forall>y \<in> set ?r.
               timestamp_key x \<le> timestamp_key y"
    using take_sorted_top [OF s, of m] by (simp add: m ms)
  have len: "0 \<le> limit \<longrightarrow> length ?r = min (nat limit) (length consultations) \<and>
               int (length ?r) \<le> limit"
  proof
    assume l: "0 \<le> limit"
    have "length ?s = length consultations"
      using ms by (metis size_mset)
    with l show "length ?r = min (nat limit) (length consultations) \<and> int (length ?r) \<le> limit"
      by (simp add: length_slice_to)
  qed
  from g sub sr last top len
  show "\<exists>result.
            get_consultations (Some docs) email limit = Inr result \<and>
            mset result \<subseteq># mset consultations \<and>
            sorted_wrt (\<lambda>a b. timestamp_key b \<le> timestamp_key a) result \<and>
            (\<forall>i j. i < j \<and> j < length result \<and> timestamp (result ! i) = None \<longrightarrow>
               timestamp_key (result ! j) = datetime_min) \<and>
            (\<forall>x \<in># mset consultations - mset result. \<forall>y \<in> set result.
               timestamp_key x \<le> timestamp_key y) \<and>
            (0 \<le> limit \<longrightarrow> length result = min (nat limit) (length consultations) \<and>
               int (length result) \<le> limit)"
    by blast
next
  show "get_consultations_default (Some docs) email = get_consultations (Some docs) email 10"
    by (simp add: get_consultations_default_def)
qed

theorem get_consultations_spec_witness:
  "find_by_email (Some [alice, bob]) ''b@x.com'' = Inr (Some bob)
   \<and> u_consultations bob =
       Some [\<lparr>timestamp = Some 30000, payload = ''c30''\<rparr>,
             \<lparr>timestamp = None, payload = ''c-none''\<rparr>,
             \<lparr>timestamp = Some 50000, payload = ''c50''\<rparr>,
             \<lparr>timestamp = Some 10000, payload = ''c10''\<rparr>,
             \<lparr>timestamp = Some 40000, payload = ''c40''\<rparr>]
   \<and> get_consultations (Some [alice, bob]) ''b@x.com'' 3
       = Inr [\<lparr>timestamp = Some 50000, payload = ''c50''\<rparr>,
              \<lparr>timestamp = Some 40000, payload = ''c40''\<rparr>,
              \<lparr>timestamp = Some 30000, payload = ''c30''\<rparr>]
   \<and> sorted_wrt (\<lambda>a b. timestamp_key b \<le> timestamp_key a)
         [\<lparr>timestamp = Some 50000, payload = ''c50''\<rparr>,
          \<lparr>timestamp = Some 40000, payload = ''c40''\<rparr>,
          \<lparr>timestamp = Some 30000, payload = ''c30''\<rparr>]
   \<and> get_consultations_default (Some [alice, bob]) ''b@x.com''
       = Inr [\<lparr>timestamp = Some 50000, payload = ''c50''\<rparr>,
              \<lparr>timestamp = Some 40000, payload = ''c40''\<rparr>,
              \<lparr>timestamp = Some 30000, payload = ''c30''\<rparr>,
              \<lparr>timestamp = Some 10000, payload = ''c10''\<rparr>,
              \<lparr>timestamp = None, payload = ''c-none''\<rparr>]
   \<and> get_consultations (Some [alice, bob]) ''nobody@x.com'' 3 = Inr []
   \<and> get_consultations (Some [alice, bob\<lparr>u_consultations := None\<rparr>]) ''b@x.com'' 3 = Inr []"
proof -
  let ?cs = "[\<lparr>timestamp = Some 30000, payload = ''c30''\<rparr>,
              \<lparr>timestamp = None, payload = ''c-none''\<rparr>,
              \<lparr>timestamp = Some 50000, payload = ''c50''\<rparr>,
              \<lparr>timestamp = Some 10000, payload = ''c10''\<rparr>,
              \<lparr>timestamp = Some 40000, payload = ''c40''\<rparr>]"
  let ?top3 = "[\<lparr>timestamp = Some 50000, payload = ''c50''\<rparr>,
                \<lparr>timestamp = Some 40000, payload = ''c40''\<rparr>,
                \<lparr>timestamp = Some 30000, payload = ''c30''\<rparr>]"
  let ?all = "[\<lparr>timestamp = Some 50000, payload = ''c50''\<rparr>,
               \<lparr>timestamp = Some 40000, payload = ''c40''\<rparr>,
               \<lparr>timestamp = Some 30000, payload = ''c30''\<rparr>,
               \<lparr>timestamp = Some 10000, payload = ''c10''\<rparr>,
               \<lparr>timestamp = None, payload = ''c-none''\<rparr>]"
  have fb: "find_by_email (Some [alice, bob]) ''b@x.com'' = Inr (Some bob)"
    by (simp add: find_by_email_connected find_one_def by_email_def alice_def bob_def)
  have cb: "u_consultations bob = Some ?cs" by (simp add: bob_def)
  have srt: "sort_reverse timestamp_key ?cs = ?all"
    by (simp add: sort_reverse_def timestamp_key_def datetime_min_def)
  have e3: "get_consultations (Some [alice, bob]) ''b@x.com'' 3 = Inr ?top3"
    by (simp add: get_consultations_found [OF fb cb] srt slice_to_def)
  note t = get_consultations_spec [where docs = "[alice, bob]" and email = "''b@x.com''"
      and limit = 3]
  from t fb cb obtain result where
    g: "get_consultations (Some [alice, bob]) ''b@x.com'' 3 = Inr result"
    and s: "sorted_wrt (\<lambda>a b. timestamp_key b \<le> timestamp_key a) result"
    by blast
  from g e3 have "result = ?top3" by simp
  with s have s3: "sorted_wrt (\<lambda>a b. timestamp_key b \<le> timestamp_key a) ?top3" by simp
  from t have "get_consultations_default (Some [alice, bob]) ''b@x.com''
                 = get_consultations (Some [alice, bob]) ''b@x.com'' 10"
    by blast
  then have d: "get_consultations_default (Some [alice, bob]) ''b@x.com'' = Inr ?all"
    by (simp add: get_consultations_found [OF fb cb] srt slice_to_def)
  have fn: "find_by_email (Some [alice, bob]) ''nobody@x.com'' = Inr None"
    by (simp add: find_by_email_connected find_one_def by_email_def alice_def bob_def)
  from get_consultations_spec [where docs = "[alice, bob]" and email = "''nobody@x.com''"
      and limit = 3] fn
  have n: "get_consultations (Some [alice, bob]) ''nobody@x.com'' 3 = Inr []" by blast
  have fm: "find_by_email (Some [alice, bob\<lparr>u_consultations := None\<rparr>]) ''b@x.com''
              = Inr (Some (bob\<lparr>u_consultations := None\<rparr>))"
    by (simp add: find_by_email_connected find_one_def by_email_def alice_def bob_def)
  have "u_consultations (bob\<lparr>u_consultations := None\<rparr>) = None" by simp
  with get_consultations_spec [where docs = "[alice, bob\<lparr>u_consultations := None\<rparr>]"
      and email = "''b@x.com''" and limit = 3] fm
  have m: "get_consultations (Some [alice, bob\<lparr>u_consultations := None\<rparr>]) ''b@x.com'' 3 = Inr []"
    by blast
  from fb cb e3 s3 d n m show ?thesis by blast
qed

end
